theory Spec2Isabelle
  imports Main
begin

section \<open>Values, exceptions and the run state\<close>

text \<open>
  The RAPI client hands back decoded JSON: \<open>None\<close>, booleans, integers (Python's
  unbounded \<open>int\<close>/\<open>long\<close>), byte strings, lists and dictionaries with string keys.
  Floating-point numbers are left out of the value universe.
\<close>

datatype pyval =
    PNone
  | PBool bool
  | PInt int
  | PStr string
  | PList "pyval list"
  | PDict "(string \<times> pyval) list"

text \<open>The exceptions that the script itself can raise or let through.\<close>

datatype exn =
    TypeError
  | ValueError
  | KeyError
  | IndexError
  | AttributeError
  | AssertionError
  | GanetiApiError string

text \<open>
  A call passes positional arguments and keyword arguments (\<open>*args, **kwargs\<close>);
  the keywords are kept in the order in which the call site writes them.
\<close>

type_synonym args = "pyval list \<times> (string \<times> pyval) list"

text \<open>
  An operation of the wrapped \<open>GanetiRapiClient\<close> acts on the cluster (the world
  \<open>'w\<close>) and either returns a value or raises \<open>GanetiApiError\<close> with a message; the
  client reports transport and HTTP failures in that class. The client object is the
  map from the names of its operations to the operations.
\<close>

datatype outcome = Returned pyval | ApiError string

type_synonym 'w operation = "args \<Rightarrow> 'w \<Rightarrow> outcome \<times> 'w"

type_synonym 'w client = "string \<Rightarrow> 'w operation option"

text \<open>
  One constructor for each \<open>print\<close> statement of the script:
  \<^item> \<open>UsingMethod n\<close>: \<^verbatim>\<open>print "Using method %s" % name\<close>
  \<^item> \<open>RapiError n e\<close>: \<^verbatim>\<open>print "RAPI error while performing function %s : %s" % (name, str(e))\<close>
  \<^item> \<open>MissingMethod n\<close>: \<^verbatim>\<open>print "Missing method %s; supplying mock method" % attr\<close>
  \<^item> \<open>NotJobId v\<close>: \<^verbatim>\<open>print ("Finish called with a method not producing a job id, returning %s" % possible_job_id)\<close>
  \<^item> \<open>ErrorEncountered\<close>: \<^verbatim>\<open>print "Error encountered while performing operation: "\<close>
  \<^item> \<open>Printed v\<close>: \<^verbatim>\<open>print result\<close>
\<close>

datatype line =
    UsingMethod string
  | RapiError string string
  | MissingMethod string
  | NotJobId pyval
  | ErrorEncountered
  | Printed pyval

text \<open>
  The call history is bookkeeping of the model, not state of the program: it records
  every call that reaches an operation of the wrapped client (\<open>Forwarded\<close>, with the
  name under which the invoker was created) and every call of \<open>MockMethod\<close>.
\<close>

datatype event = Forwarded string args | Mocked args

record 'w run =
  world :: 'w
  out :: "line list"
  err :: "string list"
  trace :: "event list"

type_synonym ('a, 'w) prog = "'w run \<Rightarrow> (exn + 'a) \<times> 'w run"

definition ret :: "'a \<Rightarrow> ('a, 'w) prog" where
  "ret x = (\<lambda>s. (Inr x, s))"

definition throw :: "exn \<Rightarrow> ('a, 'w) prog" where
  "throw e = (\<lambda>s. (Inl e, s))"

definition bnd :: "('a, 'w) prog \<Rightarrow> ('a \<Rightarrow> ('b, 'w) prog) \<Rightarrow> ('b, 'w) prog" where
  "bnd m f = (\<lambda>s. case m s of (Inl e, s') \<Rightarrow> (Inl e, s') | (Inr x, s') \<Rightarrow> f x s')"

definition lift :: "exn + 'a \<Rightarrow> ('a, 'w) prog" where
  "lift r = (\<lambda>s. (r, s))"

definition say :: "line \<Rightarrow> (unit, 'w) prog" where
  "say l = (\<lambda>s. (Inr (), s\<lparr>out := out s @ [l]\<rparr>))"

section \<open>Built-in operations of Python used by the script\<close>

definition isspace :: "char \<Rightarrow> bool" where
  "isspace c = (c \<in> set [CHR '' '', CHR 0x09, CHR 0x0A, CHR 0x0B, CHR 0x0C, CHR 0x0D])"

definition isdigit :: "char \<Rightarrow> bool" where
  "isdigit c = (c \<in> set ''0123456789'')"

definition strip :: "string \<Rightarrow> string" where
  "strip s = rev (dropWhile isspace (rev (dropWhile isspace s)))"

definition digit_value :: "char \<Rightarrow> int" where
  "digit_value c = int (of_char c) - 48"

definition digits_value :: "string \<Rightarrow> int" where
  "digits_value ds = foldl (\<lambda>acc c. 10 * acc + digit_value c) 0 ds"

text \<open>
  \<open>int(s)\<close> on a string, as Python 2 parses it: surrounding whitespace is dropped, one
  sign may precede the digits, whitespace between the sign and the digits is skipped too
  (\<open>int("- 7")\<close> is \<open>-7\<close>), and at least one digit must follow, with nothing else;
  otherwise ValueError.
\<close>

definition int_of_str :: "string \<Rightarrow> exn + int" where
  "int_of_str s =
     (let t = strip s;
          signed = (t \<noteq> [] \<and> (hd t = CHR ''-'' \<or> hd t = CHR ''+''));
          neg = (t \<noteq> [] \<and> hd t = CHR ''-'');
          ds = (if signed then dropWhile isspace (tl t) else t)
      in if ds \<noteq> [] \<and> list_all isdigit ds
         then Inr (if neg then - digits_value ds else digits_value ds)
         else Inl ValueError)"

text \<open>\<open>int(x)\<close>: \<open>bool\<close> is a subclass of \<open>int\<close>; \<open>None\<close>, lists and dictionaries raise TypeError.\<close>

fun py_int :: "pyval \<Rightarrow> exn + int" where
  "py_int (PInt i) = Inr i"
| "py_int (PBool b) = Inr (if b then 1 else 0)"
| "py_int (PStr s) = int_of_str s"
| "py_int PNone = Inl TypeError"
| "py_int (PList xs) = Inl TypeError"
| "py_int (PDict kvs) = Inl TypeError"

text \<open>Truth value of an object, as \<open>if success:\<close> tests it.\<close>

fun truthy :: "pyval \<Rightarrow> bool" where
  "truthy PNone = False"
| "truthy (PBool b) = b"
| "truthy (PInt i) = (i \<noteq> 0)"
| "truthy (PStr s) = (s \<noteq> [])"
| "truthy (PList xs) = (xs \<noteq> [])"
| "truthy (PDict kvs) = (kvs \<noteq> [])"

text \<open>
  \<open>obj[key]\<close> for the two kinds of key the script writes: a string literal and an
  integer literal. A sequence index may be negative and counts from the end then.
\<close>

datatype key = Key string | Index int

definition seq_index :: "'a list \<Rightarrow> int \<Rightarrow> exn + 'a" where
  "seq_index xs i =
     (if 0 \<le> i \<and> i < int (length xs) then Inr (xs ! nat i)
      else if i < 0 \<and> - int (length xs) \<le> i then Inr (xs ! nat (int (length xs) + i))
      else Inl IndexError)"

fun subscript :: "pyval \<Rightarrow> key \<Rightarrow> exn + pyval" where
  "subscript (PDict kvs) (Key k) = (case map_of kvs k of Some v \<Rightarrow> Inr v | None \<Rightarrow> Inl KeyError)"
| "subscript (PDict kvs) (Index i) = Inl KeyError"
| "subscript (PList xs) (Index i) = seq_index xs i"
| "subscript (PList xs) (Key k) = Inl TypeError"
| "subscript (PStr s) (Index i) = (case seq_index s i of Inl e \<Rightarrow> Inl e | Inr c \<Rightarrow> Inr (PStr [c]))"
| "subscript (PStr s) (Key k) = Inl TypeError"
| "subscript PNone k = Inl TypeError"
| "subscript (PBool b) k = Inl TypeError"
| "subscript (PInt i) k = Inl TypeError"

text \<open>\<open>for x in obj\<close> and \<open>len(obj)\<close>.\<close>

fun py_iter :: "pyval \<Rightarrow> exn + pyval list" where
  "py_iter (PList xs) = Inr xs"
| "py_iter (PStr s) = Inr (map (\<lambda>c. PStr [c]) s)"
| "py_iter (PDict kvs) = Inr (map PStr (remdups (map fst kvs)))"
| "py_iter PNone = Inl TypeError"
| "py_iter (PBool b) = Inl TypeError"
| "py_iter (PInt i) = Inl TypeError"

fun py_len :: "pyval \<Rightarrow> exn + nat" where
  "py_len (PList xs) = Inr (length xs)"
| "py_len (PStr s) = Inr (length s)"
| "py_len (PDict kvs) = Inr (length (remdups (map fst kvs)))"
| "py_len PNone = Inl TypeError"
| "py_len (PBool b) = Inl TypeError"
| "py_len (PInt i) = Inl TypeError"

definition startswith :: "string \<Rightarrow> string \<Rightarrow> bool" where
  "startswith s p = (take (length p) s = p)"

section \<open>The proxy: MockMethod, InvokerCreator, GanetiRapiClientWrapper\<close>

text \<open>
  The objects the script calls: the invoker that \<open>InvokerCreator\<close> returns (the closure
  \<open>decoratedFn\<close> over \<open>fn\<close> and \<open>name\<close>), the function \<open>MockMethod\<close>, and the wrapped
  client itself, which the private attribute \<open>_client\<close> holds and which is not callable.
\<close>

datatype 'w pyobj =
    DecoratedFn "'w operation" string
  | MockMethod
  | RawClient "'w client"

definition MockMethod_call :: "args \<Rightarrow> (pyval, 'w) prog" where
  "MockMethod_call a = (\<lambda>s. (Inr PNone, s\<lparr>trace := trace s @ [Mocked a]\<rparr>))"

definition decoratedFn :: "'w operation \<Rightarrow> string \<Rightarrow> args \<Rightarrow> (pyval, 'w) prog" where
  "decoratedFn fn nm a =
     (\<lambda>s. let s1 = s\<lparr>out := out s @ [UsingMethod nm], trace := trace s @ [Forwarded nm a]\<rparr>
          in case fn a (world s1) of
               (Returned v, w) \<Rightarrow> (Inr v, s1\<lparr>world := w\<rparr>)
             | (ApiError e, w) \<Rightarrow> (Inr PNone, s1\<lparr>world := w, out := out s1 @ [RapiError nm e]\<rparr>))"

definition InvokerCreator :: "'w operation \<Rightarrow> string \<Rightarrow> 'w pyobj" where
  "InvokerCreator fn nm = DecoratedFn fn nm"

fun call :: "'w pyobj \<Rightarrow> args \<Rightarrow> (pyval, 'w) prog" where
  "call (DecoratedFn fn nm) a = decoratedFn fn nm a"
| "call MockMethod a = MockMethod_call a"
| "call (RawClient c) a = throw TypeError"

text \<open>
  The wrapper object holds the client in \<open>_client\<close>. \<open>__getattr__\<close> runs when the
  ordinary lookup has found nothing; \<open>self.__getattribute__(attr)\<close> then finds
  \<open>_client\<close> in the instance and raises AttributeError for any other private name.
\<close>

datatype 'w wrapper = GanetiRapiClientWrapper (underlying: "'w client")

definition getattr :: "'w wrapper \<Rightarrow> string \<Rightarrow> ('w pyobj, 'w) prog" where
  "getattr self attr =
     (if startswith attr ''_'' then
        (if attr = ''_client'' then ret (RawClient (underlying self)) else throw AttributeError)
      else
        (case underlying self attr of
           Some fn \<Rightarrow> ret (InvokerCreator fn attr)
         | None \<Rightarrow> bnd (say (MissingMethod attr)) (\<lambda>_. ret MockMethod)))"

text \<open>\<open>client.attr(*args, **kwargs)\<close>: the lookup, then the call.\<close>

definition invoke :: "'w wrapper \<Rightarrow> string \<Rightarrow> args \<Rightarrow> (pyval, 'w) prog" where
  "invoke client attr a = bnd (getattr client attr) (\<lambda>f. call f a)"

section \<open>The job resolver\<close>

definition Finish :: "'w wrapper \<Rightarrow> 'w pyobj \<Rightarrow> args \<Rightarrow> (pyval, 'w) prog" where
  "Finish client fn a =
     bnd (call fn a) (\<lambda>possible_job_id.
       case py_int possible_job_id of
         Inl e \<Rightarrow>
           if e = ValueError \<or> e = TypeError then
             bnd (if possible_job_id \<noteq> PNone then say (NotJobId possible_job_id) else ret ())
               (\<lambda>_. ret possible_job_id)
           else throw e
       | Inr _ \<Rightarrow>
           bnd (invoke client ''WaitForJobCompletion'' ([possible_job_id], [])) (\<lambda>success.
           bnd (invoke client ''GetJobStatus'' ([possible_job_id], [])) (\<lambda>status.
           bnd (lift (subscript status (Key ''opresult''))) (\<lambda>opresult.
           bnd (lift (subscript opresult (Index 0))) (\<lambda>result.
             if truthy success then ret result
             else bnd (say ErrorEncountered) (\<lambda>_.
                  bnd (say (Printed result)) (\<lambda>_. ret PNone)))))))"

text \<open>\<open>Finish(client, client.attr, *args, **kwargs)\<close>: the attribute is looked up before the call.\<close>

definition Finish_of :: "'w wrapper \<Rightarrow> string \<Rightarrow> args \<Rightarrow> (pyval, 'w) prog" where
  "Finish_of client attr a = bnd (getattr client attr) (\<lambda>fn. Finish client fn a)"

text \<open>Statements in sequence; an exception ends the sequence.\<close>

fun sequence :: "('a, 'w) prog list \<Rightarrow> (unit, 'w) prog" where
  "sequence [] = ret ()"
| "sequence (m # ms) = bnd m (\<lambda>_. sequence ms)"

fun foreach :: "'a list \<Rightarrow> ('a \<Rightarrow> ('b, 'w) prog) \<Rightarrow> (unit, 'w) prog" where
  "foreach [] body = ret ()"
| "foreach (x # xs) body = bnd (body x) (\<lambda>_. foreach xs body)"

section \<open>The scenarios\<close>

definition TestTags ::
  "'w wrapper \<Rightarrow> 'w pyobj \<Rightarrow> 'w pyobj \<Rightarrow> 'w pyobj \<Rightarrow> pyval list \<Rightarrow> (unit, 'w) prog" where
  "TestTags client get_fn add_fn delete_fn args =
     (let tags = [PStr ''tag1'', PStr ''tag2'', PStr ''tag3''] in
      sequence
       [call get_fn (args, []),
        Finish client add_fn (args, [(''tags'', PList tags), (''dry_run'', PBool True)]),
        Finish client add_fn (args, [(''tags'', PList tags)]),
        call get_fn (args, []),
        Finish client delete_fn (args, [(''tags'', PList (take 1 tags)), (''dry_run'', PBool True)]),
        Finish client delete_fn (args, [(''tags'', PList (take 1 tags))]),
        call get_fn (args, []),
        Finish client delete_fn (args, [(''tags'', PList (drop 1 tags))]),
        call get_fn (args, [])])"

definition TestGetters :: "'w wrapper \<Rightarrow> (unit, 'w) prog" where
  "TestGetters client =
     sequence
      [invoke client ''GetVersion'' ([], []),
       invoke client ''GetFeatures'' ([], []),
       invoke client ''GetOperatingSystems'' ([], []),
       invoke client ''GetInfo'' ([], []),
       invoke client ''GetClusterTags'' ([], []),
       invoke client ''GetInstances'' ([], []),
       invoke client ''GetInstances'' ([], [(''bulk'', PBool True)]),
       invoke client ''GetJobs'' ([], []),
       invoke client ''GetJobs'' ([], [(''bulk'', PBool True)]),
       invoke client ''GetNodes'' ([], []),
       invoke client ''GetNodes'' ([], [(''bulk'', PBool True)]),
       invoke client ''GetNetworks'' ([], []),
       invoke client ''GetNetworks'' ([], [(''bulk'', PBool True)]),
       invoke client ''GetGroups'' ([], []),
       invoke client ''GetGroups'' ([], [(''bulk'', PBool True)])]"

definition RemoveAllInstances :: "'w wrapper \<Rightarrow> (unit, 'w) prog" where
  "RemoveAllInstances client =
     bnd (invoke client ''GetInstances'' ([], [])) (\<lambda>instances.
     bnd (lift (py_iter instances)) (\<lambda>items.
     bnd (foreach items (\<lambda>inst. Finish_of client ''DeleteInstance'' ([inst], []))) (\<lambda>_.
     bnd (invoke client ''GetInstances'' ([], [])) (\<lambda>instances.
     bnd (lift (py_len instances)) (\<lambda>n.
       if n = 0 then ret () else throw AssertionError)))))"

definition TestSingleInstance ::
  "'w wrapper \<Rightarrow> string \<Rightarrow> string \<Rightarrow> string \<Rightarrow> string \<Rightarrow> (unit, 'w) prog" where
  "TestSingleInstance client instance_name alternate_name node_one node_two =
     sequence
      [Finish_of client ''CreateInstance''
         ([PStr ''create'', PStr instance_name, PStr ''plain'',
           PList [PDict [(''size'', PStr ''1gb'')]], PList []],
          [(''dry_run'', PBool True), (''os'', PStr ''debian-image''), (''pnode'', PStr node_one)]),
       Finish_of client ''CreateInstance''
         ([PStr ''create'', PStr instance_name, PStr ''plain'',
           PList [PDict [(''size'', PStr ''1000'')]], PList [PDict []]],
          [(''dry_run'', PBool True), (''os'', PStr ''debian-image''), (''pnode'', PStr node_one)]),
       Finish_of client ''CreateInstance''
         ([PStr ''create'', PStr instance_name, PStr ''plain'',
           PList [PDict [(''size'', PInt 800)]], PList [PDict []]],
          [(''os'', PStr ''debian-image''), (''pnode'', PStr node_one)]),
       Finish_of client ''DeleteInstance'' ([PStr instance_name], []),
       Finish_of client ''CreateInstance''
         ([PStr ''create'', PStr instance_name, PStr ''plain'',
           PList [PDict [(''size'', PInt 1200)]], PList [PDict []]],
          [(''os'', PStr ''debian-image''), (''pnode'', PStr node_one)]),
       invoke client ''GetInstance'' ([PStr instance_name], []),
       Finish_of client ''GetInstanceInfo'' ([PStr instance_name], []),
       Finish_of client ''GetInstanceInfo'' ([PStr instance_name], [(''static'', PBool True)]),
       bnd (getattr client ''GetInstanceTags'') (\<lambda>get_fn.
       bnd (getattr client ''AddInstanceTags'') (\<lambda>add_fn.
       bnd (getattr client ''DeleteInstanceTags'') (\<lambda>delete_fn.
       bnd (TestTags client get_fn add_fn delete_fn [PStr instance_name]) (\<lambda>_. ret PNone)))),
       Finish_of client ''GrowInstanceDisk''
         ([PStr instance_name, PInt 0, PInt 100], [(''wait_for_sync'', PBool True)]),
       Finish_of client ''RebootInstance''
         ([PStr instance_name, PStr ''soft''],
          [(''ignore_secondaries'', PBool True), (''dry_run'', PBool True),
           (''reason'', PStr ''Hulk smash gently!'')]),
       Finish_of client ''ShutdownInstance''
         ([PStr instance_name],
          [(''dry_run'', PBool True), (''no_remember'', PBool False),
           (''reason'', PStr ''Hulk smash hard!'')]),
       Finish_of client ''StartupInstance''
         ([PStr instance_name],
          [(''dry_run'', PBool True), (''no_remember'', PBool False),
           (''reason'', PStr ''Not hard enough!'')]),
       Finish_of client ''RebootInstance''
         ([PStr instance_name, PStr ''soft''],
          [(''ignore_secondaries'', PBool True), (''dry_run'', PBool False)]),
       Finish_of client ''ShutdownInstance''
         ([PStr instance_name], [(''dry_run'', PBool False), (''no_remember'', PBool False)]),
       Finish_of client ''ModifyInstance''
         ([PStr instance_name],
          [(''disk_template'', PStr ''drbd''), (''remote_node'', PStr node_two)]),
       Finish_of client ''ModifyInstance''
         ([PStr instance_name], [(''disk_template'', PStr ''plain'')]),
       Finish_of client ''RenameInstance''
         ([PStr instance_name, PStr alternate_name],
          [(''ip_check'', PBool True), (''name_check'', PBool True)]),
       Finish_of client ''RenameInstance'' ([PStr alternate_name, PStr instance_name], []),
       Finish_of client ''DeactivateInstanceDisks'' ([PStr instance_name], []),
       Finish_of client ''ActivateInstanceDisks'' ([PStr instance_name], []),
       Finish_of client ''RecreateInstanceDisks''
         ([PStr instance_name, PList [PInt 0], PList [PStr node_one]], []),
       Finish_of client ''StartupInstance''
         ([PStr instance_name], [(''dry_run'', PBool False), (''no_remember'', PBool False)]),
       invoke client ''GetInstanceConsole'' ([PStr instance_name], []),
       Finish_of client ''ReinstallInstance''
         ([PStr instance_name],
          [(''os'', PNone), (''no_startup'', PBool False), (''osparams'', PDict [])]),
       Finish_of client ''DeleteInstance'' ([PStr instance_name], [(''dry_run'', PBool True)]),
       Finish_of client ''DeleteInstance'' ([PStr instance_name], [])]"

section \<open>The workload and the entry point\<close>

text \<open>
  The modules \<open>qa_config\<close>, \<open>qa_node\<close> and \<open>qa_rapi\<close> are imported by the script and
  are parameters here: each of their functions acts on the world and returns or raises.
  A node object has the attribute \<open>primary\<close>, an instance object the attribute \<open>name\<close>;
  \<open>Release_node\<close> and \<open>Release_instance\<close> are the \<open>Release()\<close> methods of the two.
\<close>

record qa_node =
  primary :: string

record qa_instance =
  name :: string

type_synonym ('a, 'w) ext = "'w \<Rightarrow> (exn + 'a) \<times> 'w"

record 'w qa =
  Load :: "string \<Rightarrow> (unit, 'w) ext"
  AcquireNode :: "(qa_node, 'w) ext"
  Release_node :: "qa_node \<Rightarrow> (unit, 'w) ext"
  AcquireManyNodes :: "nat \<Rightarrow> (qa_node list, 'w) ext"
  ReleaseManyNodes :: "qa_node list \<Rightarrow> (unit, 'w) ext"
  AcquireInstance :: "(qa_instance, 'w) ext"
  Release_instance :: "qa_instance \<Rightarrow> (unit, 'w) ext"
  TestNodeAddAll :: "(unit, 'w) ext"
  TestNodeRemoveAll :: "(unit, 'w) ext"
  LookupRapiSecret :: "string \<Rightarrow> (string, 'w) ext"
  Setup :: "string \<Rightarrow> string \<Rightarrow> ('w client, 'w) ext"

definition external :: "('a, 'w) ext \<Rightarrow> ('a, 'w) prog" where
  "external f = (\<lambda>s. case f (world s) of (r, w) \<Rightarrow> (r, s\<lparr>world := w\<rparr>))"

definition RAPI_USERNAME :: string where
  "RAPI_USERNAME = ''ganeti-qa''"

text \<open>\<open>GanetiRapiClientWrapper()\<close>, that is \<open>__init__\<close>.\<close>

definition new_wrapper :: "'w qa \<Rightarrow> ('w wrapper, 'w) prog" where
  "new_wrapper q =
     bnd (external (LookupRapiSecret q RAPI_USERNAME)) (\<lambda>secret.
     bnd (external (Setup q RAPI_USERNAME secret)) (\<lambda>c.
       ret (GanetiRapiClientWrapper c)))"

definition Workload :: "'w qa \<Rightarrow> 'w wrapper \<Rightarrow> (unit, 'w) prog" where
  "Workload q client =
     bnd (TestGetters client) (\<lambda>_.
     bnd (Finish_of client ''RedistributeConfig'' ([], [])) (\<lambda>_.
     bnd (getattr client ''GetClusterTags'') (\<lambda>get_fn.
     bnd (getattr client ''AddClusterTags'') (\<lambda>add_fn.
     bnd (getattr client ''DeleteClusterTags'') (\<lambda>delete_fn.
     bnd (TestTags client get_fn add_fn delete_fn []) (\<lambda>_.
     bnd (external (AcquireNode q)) (\<lambda>node.
     bnd (getattr client ''GetNodeTags'') (\<lambda>get_fn.
     bnd (getattr client ''AddNodeTags'') (\<lambda>add_fn.
     bnd (getattr client ''DeleteNodeTags'') (\<lambda>delete_fn.
     bnd (TestTags client get_fn add_fn delete_fn [PStr (primary node)]) (\<lambda>_.
     bnd (external (Release_node q node)) (\<lambda>_.
     bnd (RemoveAllInstances client) (\<lambda>_.
     bnd (external (AcquireManyNodes q 2)) (\<lambda>nodes.
     bnd (external (AcquireInstance q)) (\<lambda>instance_one.
     bnd (external (AcquireInstance q)) (\<lambda>instance_two.
     bnd (lift (seq_index nodes 0)) (\<lambda>node_one.
     bnd (lift (seq_index nodes 1)) (\<lambda>node_two.
     bnd (TestSingleInstance client (name instance_one) (name instance_two)
            (primary node_one) (primary node_two)) (\<lambda>_.
     bnd (external (Release_instance q instance_two)) (\<lambda>_.
     bnd (external (Release_instance q instance_one)) (\<lambda>_.
       external (ReleaseManyNodes q nodes))))))))))))))))))))))"

definition usage_text :: string where
  "usage_text = ''Usage:'' @ [CHR 0x0A, CHR 0x09] @ ''rapi-workload.py qa-config-file''"

definition Usage :: "(unit, 'w) prog" where
  "Usage = (\<lambda>s. (Inr (), s\<lparr>err := err s @ [usage_text]\<rparr>))"

text \<open>\<open>Main\<close> reads \<open>sys.argv\<close>, here the parameter \<open>argv\<close>.\<close>

definition Main :: "'w qa \<Rightarrow> string list \<Rightarrow> (unit, 'w) prog" where
  "Main q argv =
     bnd (if length argv < 2 then Usage else ret ()) (\<lambda>_.
     bnd (lift (seq_index argv 1)) (\<lambda>path.
     bnd (external (Load q path)) (\<lambda>_.
     bnd (external (TestNodeAddAll q)) (\<lambda>_.
     bnd (new_wrapper q) (\<lambda>client.
     bnd (Workload q client) (\<lambda>_.
       external (TestNodeRemoveAll q)))))))"

section \<open>Vocabulary of the claims\<close>

text \<open>
  The two encodings of a job id that the specification names: a native integer, or a
  string containing only digits (at least one).
\<close>

definition digit_only :: "string \<Rightarrow> bool" where
  "digit_only s = (s \<noteq> [] \<and> list_all isdigit s)"

fun spec_integer_like :: "pyval \<Rightarrow> bool" where
  "spec_integer_like (PInt i) = True"
| "spec_integer_like (PStr s) = digit_only s"
| "spec_integer_like v = False"

text \<open>
  What the call history records for \<open>client.attr(*args, **kwargs)\<close> with a public
  attribute: the forwarded call when the client exposes \<open>attr\<close>, the call of the mock
  otherwise.
\<close>

definition proxy_event :: "'w wrapper \<Rightarrow> string \<Rightarrow> args \<Rightarrow> event" where
  "proxy_event client attr a =
     (case underlying client attr of Some fn \<Rightarrow> Forwarded attr a | None \<Rightarrow> Mocked a)"

text \<open>The calls of one operation of the client, in order.\<close>

fun is_call :: "string \<Rightarrow> event \<Rightarrow> bool" where
  "is_call nm (Forwarded n a) = (n = nm)"
| "is_call nm (Mocked a) = False"

definition calls_to :: "string \<Rightarrow> event list \<Rightarrow> event list" where
  "calls_to nm tr = filter (is_call nm) tr"

text \<open>A statement that, whatever the state, adds exactly \<open>evs\<close> to the calls of \<open>nm\<close>.\<close>

definition adds :: "string \<Rightarrow> ('a, 'w) prog \<Rightarrow> event list \<Rightarrow> bool" where
  "adds nm m evs = (\<forall>s. calls_to nm (trace (snd (m s))) = calls_to nm (trace s) @ evs)"

text \<open>
  The lines that the body of \<open>Finish\<close> prints (the other three are printed by the invoker
  and by \<open>__getattr__\<close>), and the lines that carry the name of an operation.
\<close>

fun printed_by_Finish :: "line \<Rightarrow> bool" where
  "printed_by_Finish (NotJobId v) = True"
| "printed_by_Finish ErrorEncountered = True"
| "printed_by_Finish (Printed v) = True"
| "printed_by_Finish l = False"

fun names_operation :: "string \<Rightarrow> line \<Rightarrow> bool" where
  "names_operation nm (UsingMethod n) = (n = nm)"
| "names_operation nm (RapiError n e) = (n = nm)"
| "names_operation nm (MissingMethod n) = (n = nm)"
| "names_operation nm l = False"

section \<open>Test doubles\<close>

definition returning :: "pyval \<Rightarrow> 'w operation" where
  "returning v = (\<lambda>a w. (Returned v, w))"

definition failing :: "string \<Rightarrow> 'w operation" where
  "failing m = (\<lambda>a w. (ApiError m, w))"

definition s0 :: "unit run" where
  "s0 = \<lparr>world = (), out = [], err = [], trace = []\<rparr>"

text \<open>
  The double of the specification's end-to-end scenario: \<open>CreateInstance\<close> returns the
  string \<open>"42"\<close>, the wait reports success, the status is \<open>{"opresult": ["created-ok"]}\<close>.
\<close>

definition double_created :: "unit wrapper" where
  "double_created = GanetiRapiClientWrapper (map_of
     [(''CreateInstance'', returning (PStr ''42'')),
      (''WaitForJobCompletion'', returning (PBool True)),
      (''GetJobStatus'', returning (PDict [(''opresult'', PList [PStr ''created-ok''])]))])"

definition create42 :: "unit pyobj" where
  "create42 = DecoratedFn (returning (PStr ''42'')) ''CreateInstance''"

text \<open>Operations whose return value is the boolean \<open>True\<close>, and the string \<open>"-7"\<close>.\<close>

definition create_true :: "unit pyobj" where
  "create_true = DecoratedFn (returning (PBool True)) ''CreateInstance''"

definition create_minus7 :: "unit pyobj" where
  "create_minus7 = DecoratedFn (returning (PStr ''-7'')) ''CreateInstance''"

definition double_failed :: "unit wrapper" where
  "double_failed = GanetiRapiClientWrapper (map_of
     [(''CreateInstance'', returning (PStr ''42'')),
      (''WaitForJobCompletion'', returning (PBool False)),
      (''GetJobStatus'', returning (PDict [(''opresult'', PList [PStr ''boom''])]))])"

definition double_no_status :: "unit wrapper" where
  "double_no_status = GanetiRapiClientWrapper (map_of
     [(''CreateInstance'', returning (PStr ''42'')),
      (''WaitForJobCompletion'', returning (PBool False))])"

definition double_status_error :: "unit wrapper" where
  "double_status_error = GanetiRapiClientWrapper (map_of
     [(''CreateInstance'', returning (PStr ''42'')),
      (''WaitForJobCompletion'', returning (PBool True)),
      (''GetJobStatus'', failing ''no such job'')])"

definition double_tags :: "unit wrapper" where
  "double_tags = GanetiRapiClientWrapper (map_of
     [(''GetClusterTags'', returning (PList [])),
      (''AddClusterTags'', returning (PStr ''1'')),
      (''DeleteClusterTags'', returning (PInt 2)),
      (''WaitForJobCompletion'', returning (PBool True)),
      (''GetJobStatus'', returning (PDict [(''opresult'', PList [PNone])]))])"

definition get_tags0 :: "unit pyobj" where
  "get_tags0 = DecoratedFn (returning (PList [])) ''GetClusterTags''"

definition add_tags0 :: "unit pyobj" where
  "add_tags0 = DecoratedFn (returning (PStr ''1'')) ''AddClusterTags''"

definition delete_tags0 :: "unit pyobj" where
  "delete_tags0 = DecoratedFn (returning (PInt 2)) ''DeleteClusterTags''"

text \<open>A cluster whose state is the list of its instances; a deletion is a job that succeeds.\<close>

definition delete_instance_double :: "string list operation" where
  "delete_instance_double =
     (\<lambda>a w. (Returned (PInt 7), (case fst a of [PStr i] \<Rightarrow> removeAll i w | _ \<Rightarrow> w)))"

definition cluster_double :: "string list wrapper" where
  "cluster_double = GanetiRapiClientWrapper (map_of
     [(''GetInstances'', (\<lambda>a w. (Returned (PList (map PStr w)), w))),
      (''DeleteInstance'', delete_instance_double),
      (''WaitForJobCompletion'', returning (PBool True)),
      (''GetJobStatus'', returning (PDict [(''opresult'', PList [PNone])]))])"

definition cluster0 :: "string list run" where
  "cluster0 = \<lparr>world = [''inst1'', ''inst2''], out = [], err = [], trace = []\<rparr>"

definition qa_stub :: "unit qa" where
  "qa_stub = \<lparr>
     Load = (\<lambda>path w. (Inr (), w)),
     AcquireNode = (\<lambda>w. (Inr \<lparr>primary = ''node1''\<rparr>, w)),
     Release_node = (\<lambda>n w. (Inr (), w)),
     AcquireManyNodes = (\<lambda>k w. (Inr (replicate k \<lparr>primary = ''node1''\<rparr>), w)),
     ReleaseManyNodes = (\<lambda>ns w. (Inr (), w)),
     AcquireInstance = (\<lambda>w. (Inr \<lparr>name = ''instance1''\<rparr>, w)),
     Release_instance = (\<lambda>i w. (Inr (), w)),
     TestNodeAddAll = (\<lambda>w. (Inr (), w)),
     TestNodeRemoveAll = (\<lambda>w. (Inr (), w)),
     LookupRapiSecret = (\<lambda>u w. (Inr ''secret'', w)),
     Setup = (\<lambda>u p w. (Inr (underlying double_created), w))\<rparr>"

section \<open>Lemmas on the built-in operations and the proxy\<close>

lemmas eval_defs = Finish_def bnd_def ret_def lift_def say_def invoke_def getattr_def
  startswith_def InvokerCreator_def decoratedFn_def MockMethod_call_def returning_def failing_def
  s0_def int_of_str_def strip_def isspace_def isdigit_def seq_index_def

lemma isdigit_not_space: "isdigit c \<Longrightarrow> \<not> isspace c"
  by (auto simp: isdigit_def isspace_def)

lemma isdigit_not_sign: "isdigit c \<Longrightarrow> c \<noteq> CHR ''-'' \<and> c \<noteq> CHR ''+''"
  by (auto simp: isdigit_def)

lemma strip_digits: "digit_only s \<Longrightarrow> strip s = s"
proof -
  assume d: "digit_only s"
  then obtain c r where s: "s = c # r" by (cases s) (auto simp: digit_only_def)
  from d have all: "list_all isdigit s" by (simp add: digit_only_def)
  have h: "\<not> isspace (hd s)" using all s isdigit_not_space by simp
  have l: "\<not> isspace (last s)"
    using all s isdigit_not_space by (metis last_in_set list.distinct(1) list_all_iff)
  have "dropWhile isspace s = s" using h s by simp
  moreover have "dropWhile isspace (rev s) = rev s"
    using l s by (metis dropWhile_eq_self_iff hd_rev)
  ultimately show ?thesis by (simp add: strip_def)
qed

lemma int_of_str_digits: "digit_only s \<Longrightarrow> int_of_str s = Inr (digits_value s)"
proof -
  assume d: "digit_only s"
  then have ne: "s \<noteq> []" and all: "list_all isdigit s" by (simp_all add: digit_only_def)
  from ne all have "isdigit (hd s)" by (cases s) simp_all
  then have "hd s \<noteq> CHR ''-''" "hd s \<noteq> CHR ''+''" using isdigit_not_sign by blast+
  then show ?thesis using ne all by (simp add: int_of_str_def strip_digits[OF d])
qed

lemma py_int_integer_like: "spec_integer_like v \<Longrightarrow> \<exists>i. py_int v = Inr i"
  by (cases v) (auto simp: int_of_str_digits)

lemma py_int_errors: "py_int v = Inl e \<Longrightarrow> e = ValueError \<or> e = TypeError"
  by (cases v) (auto simp: int_of_str_def Let_def split: if_splits)

lemma py_int_42: "py_int (PStr ''42'') = Inr 42"
  by (simp add: int_of_str_def strip_def isspace_def isdigit_def digits_value_def digit_value_def)

lemma subscript_raises:
  "subscript v k = Inl e \<Longrightarrow> e = TypeError \<or> e = KeyError \<or> e = IndexError"
  by (cases v; cases k) (auto simp: seq_index_def Let_def split: option.splits sum.splits if_splits)

lemma getattr_public:
  "\<not> startswith attr ''_'' \<Longrightarrow> getattr client attr s =
     (case underlying client attr of
        Some fn \<Rightarrow> (Inr (DecoratedFn fn attr), s)
      | None \<Rightarrow> (Inr MockMethod, s\<lparr>out := out s @ [MissingMethod attr]\<rparr>))"
  by (simp add: getattr_def ret_def bnd_def say_def InvokerCreator_def split: option.splits)

lemma invoke_public:
  assumes "\<not> startswith attr ''_''"
  shows "\<exists>v s'. invoke client attr a s = (Inr v, s') \<and> trace s' = trace s @ [proxy_event client attr a]"
  using assms
  by (auto simp: invoke_def bnd_def getattr_public proxy_event_def decoratedFn_def
      MockMethod_call_def Let_def split: option.splits prod.splits outcome.splits)

lemma wait_public: "\<not> startswith ''WaitForJobCompletion'' ''_''"
  by (simp add: startswith_def)

lemma status_public: "\<not> startswith ''GetJobStatus'' ''_''"
  by (simp add: startswith_def)

lemma delete_public: "\<not> startswith ''DeleteInstance'' ''_''"
  by (simp add: startswith_def)

lemma instances_public: "\<not> startswith ''GetInstances'' ''_''"
  by (simp add: startswith_def)

lemma call_raises: "fst (call fn a s) = Inl e \<Longrightarrow> e = TypeError"
  by (cases fn)
     (auto simp: decoratedFn_def MockMethod_call_def throw_def Let_def
           split: prod.splits outcome.splits)

lemma call_decorated_trace:
  "trace (snd (call (DecoratedFn f n) a s)) = trace s @ [Forwarded n a]"
  by (simp add: decoratedFn_def Let_def split: prod.splits outcome.splits)

section \<open>Lemmas on the job resolver\<close>

lemma Finish_job:
  assumes "call fn a s = (Inr v, s1)" and "py_int v = Inr i"
  shows "Finish client fn a s =
     bnd (invoke client ''WaitForJobCompletion'' ([v], [])) (\<lambda>success.
     bnd (invoke client ''GetJobStatus'' ([v], [])) (\<lambda>status.
     bnd (lift (subscript status (Key ''opresult''))) (\<lambda>opresult.
     bnd (lift (subscript opresult (Index 0))) (\<lambda>result.
       if truthy success then ret result
       else bnd (say ErrorEncountered) (\<lambda>_.
            bnd (say (Printed result)) (\<lambda>_. ret PNone)))))) s1"
  using assms by (simp add: Finish_def bnd_def)

lemma Finish_terminal:
  assumes "call fn a s = (Inr v, s1)" and "py_int v = Inl e"
  shows "Finish client fn a s =
           (Inr v, s1\<lparr>out := out s1 @ (if v = PNone then [] else [NotJobId v])\<rparr>)"
  using assms py_int_errors[OF assms(2)]
  by (auto simp: Finish_def bnd_def ret_def say_def)

lemma Finish_job_trace:
  assumes "call fn a s = (Inr v, s1)" and "py_int v = Inr i"
  shows "trace (snd (Finish client fn a s)) =
           trace s1 @ [proxy_event client ''WaitForJobCompletion'' ([v], []),
                       proxy_event client ''GetJobStatus'' ([v], [])]"
proof -
  obtain success s2 where w: "invoke client ''WaitForJobCompletion'' ([v], []) s1 = (Inr success, s2)"
    and t2: "trace s2 = trace s1 @ [proxy_event client ''WaitForJobCompletion'' ([v], [])]"
    using invoke_public[OF wait_public] by blast
  obtain status s3 where g: "invoke client ''GetJobStatus'' ([v], []) s2 = (Inr status, s3)"
    and t3: "trace s3 = trace s2 @ [proxy_event client ''GetJobStatus'' ([v], [])]"
    using invoke_public[OF status_public] by blast
  have "trace (snd (Finish client fn a s)) = trace s3"
    unfolding Finish_job[OF assms(1) assms(2)]
    by (simp add: bnd_def w g lift_def ret_def say_def split: sum.splits)
  then show ?thesis by (simp add: t2 t3)
qed

lemma Finish_never_api_error: "fst (Finish client fn a s) \<noteq> Inl (GanetiApiError m)"
proof (cases "call fn a s")
  case (Pair r s1)
  show ?thesis
  proof (cases r)
    case (Inl e)
    have "e = TypeError" using call_raises[of fn a s e] Pair Inl by simp
    then show ?thesis using Pair Inl by (simp add: Finish_def bnd_def)
  next
    case (Inr v)
    then have c: "call fn a s = (Inr v, s1)" using Pair by simp
    show ?thesis
    proof (cases "py_int v")
      case (Inl e)
      from Finish_terminal[OF c Inl] show ?thesis by simp
    next
      case i: (Inr i)
      obtain success s2 where w: "invoke client ''WaitForJobCompletion'' ([v], []) s1 = (Inr success, s2)"
        using invoke_public[OF wait_public] by blast
      obtain status s3 where g: "invoke client ''GetJobStatus'' ([v], []) s2 = (Inr status, s3)"
        using invoke_public[OF status_public] by blast
      show ?thesis
        unfolding Finish_job[OF c i]
        by (auto simp: bnd_def w g lift_def ret_def say_def split: sum.splits
            dest: subscript_raises)
    qed
  qed
qed

section \<open>Lemmas on the call history\<close>

lemma calls_to_append [simp]: "calls_to nm (xs @ ys) = calls_to nm xs @ calls_to nm ys"
  by (simp add: calls_to_def)

lemma calls_to_single:
  "calls_to nm [Forwarded n a] = (if n = nm then [Forwarded n a] else [])"
  by (simp add: calls_to_def)

lemma is_call_proxy_event:
  "nm \<noteq> attr \<Longrightarrow> \<not> is_call nm (proxy_event client attr a)"
  by (simp add: proxy_event_def split: option.splits)

lemma Finish_calls:
  assumes "nm \<noteq> ''WaitForJobCompletion''" and "nm \<noteq> ''GetJobStatus''"
  shows "calls_to nm (trace (snd (Finish client fn a s))) = calls_to nm (trace (snd (call fn a s)))"
proof (cases "call fn a s")
  case (Pair r s1)
  show ?thesis
  proof (cases r)
    case (Inl e)
    then show ?thesis using Pair by (simp add: Finish_def bnd_def)
  next
    case (Inr v)
    show ?thesis
    proof (cases "py_int v")
      case (Inl e)
      have "call fn a s = (Inr v, s1)" using Pair Inr by simp
      from Finish_terminal[OF this Inl] show ?thesis using Pair by simp
    next
      case i: (Inr i)
      have c: "call fn a s = (Inr v, s1)" using Pair Inr by simp
      show ?thesis
        using Finish_job_trace[OF c i, where client = client] assms Pair
        by (simp add: calls_to_def is_call_proxy_event)
    qed
  qed
qed

lemma adds_call_same: "adds n (call (DecoratedFn f n) a) [Forwarded n a]"
  unfolding adds_def by (simp add: call_decorated_trace calls_to_single del: call.simps)

lemma adds_call_other: "nm \<noteq> n \<Longrightarrow> adds nm (call (DecoratedFn f n) a) []"
  unfolding adds_def by (simp add: call_decorated_trace calls_to_single del: call.simps)

lemma adds_Finish_same:
  "n \<noteq> ''WaitForJobCompletion'' \<Longrightarrow> n \<noteq> ''GetJobStatus'' \<Longrightarrow>
   adds n (Finish client (DecoratedFn f n) a) [Forwarded n a]"
  unfolding adds_def
  by (simp add: Finish_calls call_decorated_trace calls_to_single del: call.simps)

lemma adds_Finish_other:
  "nm \<noteq> ''WaitForJobCompletion'' \<Longrightarrow> nm \<noteq> ''GetJobStatus'' \<Longrightarrow> nm \<noteq> n \<Longrightarrow>
   adds nm (Finish client (DecoratedFn f n) a) []"
  unfolding adds_def
  by (simp add: Finish_calls call_decorated_trace calls_to_single del: call.simps)

lemma sequence_adds:
  "fst (sequence ms s) = Inr u \<Longrightarrow> list_all2 (adds nm) ms evss \<Longrightarrow>
   calls_to nm (trace (snd (sequence ms s))) = calls_to nm (trace s) @ concat evss"
proof (induction ms arbitrary: s evss)
  case Nil
  then show ?case by (simp add: ret_def)
next
  case (Cons m ms)
  from Cons.prems(2) obtain evs rest
    where e: "evss = evs # rest" "adds nm m evs" "list_all2 (adds nm) ms rest"
    by (cases evss) auto
  obtain r s1 where m: "m s = (r, s1)" by (cases "m s")
  from Cons.prems(1) obtain x where x: "r = Inr x" using m by (cases r) (auto simp: bnd_def)
  have seq: "sequence (m # ms) s = sequence ms s1" using m x by (simp add: bnd_def)
  have "fst (sequence ms s1) = Inr u" using Cons.prems(1) seq by simp
  from Cons.IH[OF this e(3)]
  have "calls_to nm (trace (snd (sequence ms s1))) = calls_to nm (trace s1) @ concat rest" .
  moreover have "calls_to nm (trace s1) = calls_to nm (trace s) @ evs"
    using e(2) m by (auto simp: adds_def dest: spec[where x=s])
  ultimately show ?case using seq e(1) by simp
qed

lemma fold_removeAll: "fold removeAll xs ys = filter (\<lambda>y. y \<notin> set xs) ys"
proof (induction xs arbitrary: ys)
  case Nil
  then show ?case by simp
next
  case (Cons x xs)
  have "removeAll x ys = filter (\<lambda>y. y \<noteq> x) ys" by (induction ys) auto
  then show ?case using Cons by (auto intro: filter_cong)
qed

section \<open>Concrete runs of the test doubles\<close>

lemma c42:
  "call create42 ([], []) s0 = (Inr (PStr ''42''),
     s0\<lparr>out := [UsingMethod ''CreateInstance''], trace := [Forwarded ''CreateInstance'' ([], [])]\<rparr>)"
  by (simp add: create42_def decoratedFn_def returning_def s0_def)

lemma wait_after_create:
  "invoke double_created ''WaitForJobCompletion'' ([PStr ''42''], [])
     (s0\<lparr>out := [UsingMethod ''CreateInstance''], trace := [Forwarded ''CreateInstance'' ([], [])]\<rparr>)
   = (Inr (PBool True),
      s0\<lparr>out := [UsingMethod ''CreateInstance'', UsingMethod ''WaitForJobCompletion''],
         trace := [Forwarded ''CreateInstance'' ([], []),
                   Forwarded ''WaitForJobCompletion'' ([PStr ''42''], [])]\<rparr>)"
  by (simp add: eval_defs double_created_def)

lemma status_after_wait:
  "invoke double_created ''GetJobStatus'' ([PStr ''42''], [])
     (s0\<lparr>out := [UsingMethod ''CreateInstance'', UsingMethod ''WaitForJobCompletion''],
         trace := [Forwarded ''CreateInstance'' ([], []),
                   Forwarded ''WaitForJobCompletion'' ([PStr ''42''], [])]\<rparr>)
   = (Inr (PDict [(''opresult'', PList [PStr ''created-ok''])]),
      s0\<lparr>out := [UsingMethod ''CreateInstance'', UsingMethod ''WaitForJobCompletion'',
                  UsingMethod ''GetJobStatus''],
         trace := [Forwarded ''CreateInstance'' ([], []),
                   Forwarded ''WaitForJobCompletion'' ([PStr ''42''], []),
                   Forwarded ''GetJobStatus'' ([PStr ''42''], [])]\<rparr>)"
  by (simp add: eval_defs double_created_def)

lemma failed_wait_after_create:
  "invoke double_failed ''WaitForJobCompletion'' ([PStr ''42''], [])
     (s0\<lparr>out := [UsingMethod ''CreateInstance''], trace := [Forwarded ''CreateInstance'' ([], [])]\<rparr>)
   = (Inr (PBool False),
      s0\<lparr>out := [UsingMethod ''CreateInstance'', UsingMethod ''WaitForJobCompletion''],
         trace := [Forwarded ''CreateInstance'' ([], []),
                   Forwarded ''WaitForJobCompletion'' ([PStr ''42''], [])]\<rparr>)"
  by (simp add: eval_defs double_failed_def)

lemma failed_status_after_wait:
  "invoke double_failed ''GetJobStatus'' ([PStr ''42''], [])
     (s0\<lparr>out := [UsingMethod ''CreateInstance'', UsingMethod ''WaitForJobCompletion''],
         trace := [Forwarded ''CreateInstance'' ([], []),
                   Forwarded ''WaitForJobCompletion'' ([PStr ''42''], [])]\<rparr>)
   = (Inr (PDict [(''opresult'', PList [PStr ''boom''])]),
      s0\<lparr>out := [UsingMethod ''CreateInstance'', UsingMethod ''WaitForJobCompletion'',
                  UsingMethod ''GetJobStatus''],
         trace := [Forwarded ''CreateInstance'' ([], []),
                   Forwarded ''WaitForJobCompletion'' ([PStr ''42''], []),
                   Forwarded ''GetJobStatus'' ([PStr ''42''], [])]\<rparr>)"
  by (simp add: eval_defs double_failed_def)

lemma no_status_wait_after_create:
  "invoke double_no_status ''WaitForJobCompletion'' ([PStr ''42''], [])
     (s0\<lparr>out := [UsingMethod ''CreateInstance''], trace := [Forwarded ''CreateInstance'' ([], [])]\<rparr>)
   = (Inr (PBool False),
      s0\<lparr>out := [UsingMethod ''CreateInstance'', UsingMethod ''WaitForJobCompletion''],
         trace := [Forwarded ''CreateInstance'' ([], []),
                   Forwarded ''WaitForJobCompletion'' ([PStr ''42''], [])]\<rparr>)"
  by (simp add: eval_defs double_no_status_def)

lemma status_error_wait_after_create:
  "invoke double_status_error ''WaitForJobCompletion'' ([PStr ''42''], [])
     (s0\<lparr>out := [UsingMethod ''CreateInstance''], trace := [Forwarded ''CreateInstance'' ([], [])]\<rparr>)
   = (Inr (PBool True),
      s0\<lparr>out := [UsingMethod ''CreateInstance'', UsingMethod ''WaitForJobCompletion''],
         trace := [Forwarded ''CreateInstance'' ([], []),
                   Forwarded ''WaitForJobCompletion'' ([PStr ''42''], [])]\<rparr>)"
  by (simp add: eval_defs double_status_error_def)

lemma failed_run:
  "Finish double_failed create42 ([], []) s0 =
     (Inr PNone,
      s0\<lparr>out := [UsingMethod ''CreateInstance'', UsingMethod ''WaitForJobCompletion'',
                  UsingMethod ''GetJobStatus'', ErrorEncountered, Printed (PStr ''boom'')],
         trace := [Forwarded ''CreateInstance'' ([], []),
                   Forwarded ''WaitForJobCompletion'' ([PStr ''42''], []),
                   Forwarded ''GetJobStatus'' ([PStr ''42''], [])]\<rparr>)"
  by (simp add: eval_defs double_failed_def create42_def)

lemma no_status_run: "fst (Finish double_no_status create42 ([], []) s0) = Inl TypeError"
  by (simp add: eval_defs double_no_status_def create42_def)

lemma true_run:
  "Finish double_created create_true ([], []) s0 =
     (Inr (PStr ''created-ok''),
      s0\<lparr>out := [UsingMethod ''CreateInstance'', UsingMethod ''WaitForJobCompletion'',
                  UsingMethod ''GetJobStatus''],
         trace := [Forwarded ''CreateInstance'' ([], []),
                   Forwarded ''WaitForJobCompletion'' ([PBool True], []),
                   Forwarded ''GetJobStatus'' ([PBool True], [])]\<rparr>)"
  by (simp add: eval_defs double_created_def create_true_def)

lemma minus7_run:
  "Finish double_created create_minus7 ([], []) s0 =
     (Inr (PStr ''created-ok''),
      s0\<lparr>out := [UsingMethod ''CreateInstance'', UsingMethod ''WaitForJobCompletion'',
                  UsingMethod ''GetJobStatus''],
         trace := [Forwarded ''CreateInstance'' ([], []),
                   Forwarded ''WaitForJobCompletion'' ([PStr ''-7''], []),
                   Forwarded ''GetJobStatus'' ([PStr ''-7''], [])]\<rparr>)"
  by (simp add: eval_defs double_created_def create_minus7_def)

lemma int_of_str_sign_space: "int_of_str ''- 7'' = Inr (- 7)"
  by (simp add: int_of_str_def strip_def isspace_def isdigit_def digits_value_def digit_value_def)

lemma tags_run:
  "fst (TestTags double_tags get_tags0 add_tags0 delete_tags0 [] s0) = Inr ()"
  "trace (snd (TestTags double_tags get_tags0 add_tags0 delete_tags0 [] s0)) =
    [Forwarded ''GetClusterTags'' ([], []),
     Forwarded ''AddClusterTags''
       ([], [(''tags'', PList [PStr ''tag1'', PStr ''tag2'', PStr ''tag3'']), (''dry_run'', PBool True)]),
     Forwarded ''WaitForJobCompletion'' ([PStr ''1''], []),
     Forwarded ''GetJobStatus'' ([PStr ''1''], []),
     Forwarded ''AddClusterTags'' ([], [(''tags'', PList [PStr ''tag1'', PStr ''tag2'', PStr ''tag3''])]),
     Forwarded ''WaitForJobCompletion'' ([PStr ''1''], []),
     Forwarded ''GetJobStatus'' ([PStr ''1''], []),
     Forwarded ''GetClusterTags'' ([], []),
     Forwarded ''DeleteClusterTags'' ([], [(''tags'', PList [PStr ''tag1'']), (''dry_run'', PBool True)]),
     Forwarded ''WaitForJobCompletion'' ([PInt 2], []),
     Forwarded ''GetJobStatus'' ([PInt 2], []),
     Forwarded ''DeleteClusterTags'' ([], [(''tags'', PList [PStr ''tag1''])]),
     Forwarded ''WaitForJobCompletion'' ([PInt 2], []),
     Forwarded ''GetJobStatus'' ([PInt 2], []),
     Forwarded ''GetClusterTags'' ([], []),
     Forwarded ''DeleteClusterTags'' ([], [(''tags'', PList [PStr ''tag2'', PStr ''tag3''])]),
     Forwarded ''WaitForJobCompletion'' ([PInt 2], []),
     Forwarded ''GetJobStatus'' ([PInt 2], []),
     Forwarded ''GetClusterTags'' ([], [])]"
  by (simp_all add: TestTags_def Let_def eval_defs double_tags_def get_tags0_def add_tags0_def
      delete_tags0_def)

lemma cluster_delete_run:
  "Finish cluster_double (DecoratedFn delete_instance_double ''DeleteInstance'') ([PStr i], []) s
     = (Inr PNone, s\<lparr>world := removeAll i (world s),
           out := out s @ [UsingMethod ''DeleteInstance'', UsingMethod ''WaitForJobCompletion'',
                           UsingMethod ''GetJobStatus''],
           trace := trace s @ [Forwarded ''DeleteInstance'' ([PStr i], []),
                               Forwarded ''WaitForJobCompletion'' ([PInt 7], []),
                               Forwarded ''GetJobStatus'' ([PInt 7], [])]\<rparr>)"
  by (simp add: Finish_def bnd_def decoratedFn_def delete_instance_double_def invoke_def
      getattr_def startswith_def cluster_double_def InvokerCreator_def returning_def ret_def
      lift_def seq_index_def)

section \<open>The job resolver: claims C1, C2, C6, C7, C10\<close>

text \<open>
  C1. For every call whose raw return value is interpretable as an integer (a native
  integer, or a string containing only digits), \<open>Finish\<close> treats that value as a job id and
  invokes the job-wait primitive exactly once and the job-status primitive exactly once:
  after the call of the operation, the call history grows by exactly two entries, the call
  \<open>client.WaitForJobCompletion(job_id)\<close> followed by the call \<open>client.GetJobStatus(job_id)\<close>.
\<close>

theorem Finish_job_id_waits_once:
  assumes "call fn a s = (Inr v, s1)" and "spec_integer_like v"
  shows "trace (snd (Finish client fn a s)) =
           trace s1 @ [proxy_event client ''WaitForJobCompletion'' ([v], []),
                       proxy_event client ''GetJobStatus'' ([v], [])]"
proof -
  obtain i where i: "py_int v = Inr i" using py_int_integer_like[OF assms(2)] by blast
  show ?thesis by (rule Finish_job_trace[OF assms(1) i])
qed

theorem Finish_job_id_waits_once_witness:
  "call create42 ([], []) s0 = (Inr (PStr ''42''),
     s0\<lparr>out := [UsingMethod ''CreateInstance''], trace := [Forwarded ''CreateInstance'' ([], [])]\<rparr>)
   \<and> spec_integer_like (PStr ''42'')
   \<and> trace (snd (Finish double_created create42 ([], []) s0)) =
       [Forwarded ''CreateInstance'' ([], []),
        Forwarded ''WaitForJobCompletion'' ([PStr ''42''], []),
        Forwarded ''GetJobStatus'' ([PStr ''42''], [])]"
proof -
  have h: "spec_integer_like (PStr ''42'')" by (simp add: digit_only_def isdigit_def)
  show ?thesis
    using Finish_job_id_waits_once[OF c42 h, where client = double_created] c42 h
    by (simp add: proxy_event_def double_created_def s0_def)
qed

text \<open>
  C2, as the claim states it: for every call whose raw return value is not interpretable as
  an integer, that is every value other than a native integer or a string containing only
  digits, \<open>Finish\<close> returns that value unchanged and invokes neither the job-wait primitive
  nor the job-status primitive. The boolean \<open>True\<close> and the string \<open>"-7"\<close> are neither a
  native integer nor a digit-only string, but \<open>int()\<close> accepts both: \<open>Finish\<close> waits for the
  job, fetches its status and returns the job's result, not the value.
\<close>

theorem Finish_non_job_counterexample:
  "\<not> spec_integer_like (PBool True)
   \<and> Finish double_created create_true ([], []) s0 =
       (Inr (PStr ''created-ok''),
        s0\<lparr>out := [UsingMethod ''CreateInstance'', UsingMethod ''WaitForJobCompletion'',
                    UsingMethod ''GetJobStatus''],
           trace := [Forwarded ''CreateInstance'' ([], []),
                     Forwarded ''WaitForJobCompletion'' ([PBool True], []),
                     Forwarded ''GetJobStatus'' ([PBool True], [])]\<rparr>)
   \<and> \<not> spec_integer_like (PStr ''-7'')
   \<and> Finish double_created create_minus7 ([], []) s0 =
       (Inr (PStr ''created-ok''),
        s0\<lparr>out := [UsingMethod ''CreateInstance'', UsingMethod ''WaitForJobCompletion'',
                    UsingMethod ''GetJobStatus''],
           trace := [Forwarded ''CreateInstance'' ([], []),
                     Forwarded ''WaitForJobCompletion'' ([PStr ''-7''], []),
                     Forwarded ''GetJobStatus'' ([PStr ''-7''], [])]\<rparr>)"
  by (simp add: true_run minus7_run digit_only_def isdigit_def)

text \<open>
  C2, amended: for every call whose raw return value \<open>int()\<close> rejects (it raises ValueError
  or TypeError: \<open>None\<close>, a list, a dictionary, or a string that is not a run of digits with
  an optional sign and optional whitespace), \<open>Finish\<close> returns that value unchanged and
  invokes neither the job-wait primitive nor the job-status primitive: the state after
  \<open>Finish\<close> is the state after the call of the operation, but for the line that reports a
  value other than \<open>None\<close>.
\<close>

theorem Finish_non_job:
  assumes "call fn a s = (Inr v, s1)" and "py_int v = Inl e"
  shows "Finish client fn a s =
           (Inr v, s1\<lparr>out := out s1 @ (if v = PNone then [] else [NotJobId v])\<rparr>)
       \<and> trace (snd (Finish client fn a s)) = trace s1"
  using Finish_terminal[OF assms] by simp

theorem Finish_non_job_witness:
  "call get_tags0 ([], []) s0 = (Inr (PList []),
     s0\<lparr>out := [UsingMethod ''GetClusterTags''], trace := [Forwarded ''GetClusterTags'' ([], [])]\<rparr>)
   \<and> py_int (PList []) = Inl TypeError
   \<and> Finish double_tags get_tags0 ([], []) s0 = (Inr (PList []),
       s0\<lparr>out := [UsingMethod ''GetClusterTags'', NotJobId (PList [])],
          trace := [Forwarded ''GetClusterTags'' ([], [])]\<rparr>)
   \<and> trace (snd (Finish double_tags get_tags0 ([], []) s0)) = [Forwarded ''GetClusterTags'' ([], [])]"
proof -
  have h1: "call get_tags0 ([], []) s0 = (Inr (PList []),
     s0\<lparr>out := [UsingMethod ''GetClusterTags''], trace := [Forwarded ''GetClusterTags'' ([], [])]\<rparr>)"
    by (simp add: get_tags0_def decoratedFn_def returning_def s0_def)
  have h2: "py_int (PList []) = Inl TypeError" by simp
  show ?thesis
    using Finish_non_job[OF h1 h2, of double_tags] h1 h2 by (simp add: s0_def)
qed

text \<open>
  C6. When the invoked operation returns a job id and the job-wait primitive reports
  success, \<open>Finish\<close> returns the first entry of the \<open>"opresult"\<close> sequence of the job status;
  for the operation returning \<open>"42"\<close> and the status \<open>{"opresult": ["created-ok"]}\<close> that is
  \<open>"created-ok"\<close> (the witness).
\<close>

theorem Finish_success:
  assumes "call fn a s = (Inr v, s1)" and "py_int v = Inr i"
    and "invoke client ''WaitForJobCompletion'' ([v], []) s1 = (Inr success, s2)"
    and "truthy success"
    and "invoke client ''GetJobStatus'' ([v], []) s2 = (Inr status, s3)"
    and "subscript status (Key ''opresult'') = Inr opresult"
    and "subscript opresult (Index 0) = Inr x"
  shows "Finish client fn a s = (Inr x, s3)"
  unfolding Finish_job[OF assms(1,2)]
  using assms(3-) by (simp add: bnd_def lift_def ret_def)

theorem Finish_success_witness:
  "call create42 ([], []) s0 = (Inr (PStr ''42''),
     s0\<lparr>out := [UsingMethod ''CreateInstance''], trace := [Forwarded ''CreateInstance'' ([], [])]\<rparr>)
   \<and> py_int (PStr ''42'') = Inr 42
   \<and> truthy (PBool True)
   \<and> subscript (PDict [(''opresult'', PList [PStr ''created-ok''])]) (Key ''opresult'')
       = Inr (PList [PStr ''created-ok''])
   \<and> subscript (PList [PStr ''created-ok'']) (Index 0) = Inr (PStr ''created-ok'')
   \<and> Finish double_created create42 ([], []) s0 =
       (Inr (PStr ''created-ok''),
        s0\<lparr>out := [UsingMethod ''CreateInstance'', UsingMethod ''WaitForJobCompletion'',
                    UsingMethod ''GetJobStatus''],
           trace := [Forwarded ''CreateInstance'' ([], []),
                     Forwarded ''WaitForJobCompletion'' ([PStr ''42''], []),
                     Forwarded ''GetJobStatus'' ([PStr ''42''], [])]\<rparr>)"
proof -
  have h4: "truthy (PBool True)" by simp
  have h6: "subscript (PDict [(''opresult'', PList [PStr ''created-ok''])]) (Key ''opresult'')
       = Inr (PList [PStr ''created-ok''])" by simp
  have h7: "subscript (PList [PStr ''created-ok'']) (Index 0) = Inr (PStr ''created-ok'')"
    by (simp add: seq_index_def)
  show ?thesis
    using Finish_success[OF c42 py_int_42 wait_after_create h4 status_after_wait h6 h7]
      c42 py_int_42 h4 h6 h7
    by simp
qed

text \<open>
  C7, as the claim states it: when the operation returns a job id and the wait reports
  failure, \<open>Finish\<close> logs the operation name and the first opresult payload and returns
  \<open>None\<close>, with no exception escaping. Two runs refute it. With the wait reporting failure
  and the status \<open>{"opresult": ["boom"]}\<close>, the lines printed by \<open>Finish\<close> are the fixed
  header and the payload, and neither names the operation (the only line naming
  \<open>CreateInstance\<close> is the invoker's, printed before the call, whatever the outcome). With
  the wait reporting failure and no \<open>GetJobStatus\<close> on the client, TypeError escapes.
\<close>

theorem Finish_failure_counterexample:
  "fst (Finish double_failed create42 ([], []) s0) = Inr PNone
   \<and> out (snd (Finish double_failed create42 ([], []) s0)) =
       [UsingMethod ''CreateInstance'', UsingMethod ''WaitForJobCompletion'',
        UsingMethod ''GetJobStatus'', ErrorEncountered, Printed (PStr ''boom'')]
   \<and> filter printed_by_Finish (out (snd (Finish double_failed create42 ([], []) s0))) =
       [ErrorEncountered, Printed (PStr ''boom'')]
   \<and> filter (names_operation ''CreateInstance'')
        (filter printed_by_Finish (out (snd (Finish double_failed create42 ([], []) s0)))) = []
   \<and> fst (Finish double_no_status create42 ([], []) s0) = Inl TypeError"
  by (simp add: failed_run no_status_run)

text \<open>
  C7, amended: when the operation returns a job id, the wait reports failure and the job
  status has a first \<open>"opresult"\<close> entry, \<open>Finish\<close> prints the fixed header
  \<open>"Error encountered while performing operation: "\<close> and then that entry, and returns
  \<open>None\<close>; no exception escapes.
\<close>

theorem Finish_failure:
  assumes "call fn a s = (Inr v, s1)" and "py_int v = Inr i"
    and "invoke client ''WaitForJobCompletion'' ([v], []) s1 = (Inr success, s2)"
    and "\<not> truthy success"
    and "invoke client ''GetJobStatus'' ([v], []) s2 = (Inr status, s3)"
    and "subscript status (Key ''opresult'') = Inr opresult"
    and "subscript opresult (Index 0) = Inr x"
  shows "Finish client fn a s = (Inr PNone, s3\<lparr>out := out s3 @ [ErrorEncountered, Printed x]\<rparr>)"
  unfolding Finish_job[OF assms(1,2)]
  using assms(3-) by (simp add: bnd_def lift_def ret_def say_def)

theorem Finish_failure_witness:
  "call create42 ([], []) s0 = (Inr (PStr ''42''),
     s0\<lparr>out := [UsingMethod ''CreateInstance''], trace := [Forwarded ''CreateInstance'' ([], [])]\<rparr>)
   \<and> py_int (PStr ''42'') = Inr 42
   \<and> \<not> truthy (PBool False)
   \<and> subscript (PDict [(''opresult'', PList [PStr ''boom''])]) (Key ''opresult'')
       = Inr (PList [PStr ''boom''])
   \<and> subscript (PList [PStr ''boom'']) (Index 0) = Inr (PStr ''boom'')
   \<and> Finish double_failed create42 ([], []) s0 =
       (Inr PNone,
        s0\<lparr>out := [UsingMethod ''CreateInstance'', UsingMethod ''WaitForJobCompletion'',
                    UsingMethod ''GetJobStatus'', ErrorEncountered, Printed (PStr ''boom'')],
           trace := [Forwarded ''CreateInstance'' ([], []),
                     Forwarded ''WaitForJobCompletion'' ([PStr ''42''], []),
                     Forwarded ''GetJobStatus'' ([PStr ''42''], [])]\<rparr>)"
proof -
  have h4: "\<not> truthy (PBool False)" by simp
  have h6: "subscript (PDict [(''opresult'', PList [PStr ''boom''])]) (Key ''opresult'')
       = Inr (PList [PStr ''boom''])" by simp
  have h7: "subscript (PList [PStr ''boom'']) (Index 0) = Inr (PStr ''boom'')"
    by (simp add: seq_index_def)
  show ?thesis
    using Finish_failure[OF c42 py_int_42 failed_wait_after_create h4 failed_status_after_wait h6 h7]
      c42 py_int_42 h4 h6 h7
    by simp
qed

text \<open>
  C10. If, after a job id is obtained, \<open>GetJobStatus\<close> is absent from the wrapped client or
  its forwarded call raises a domain API error, the proxy yields \<open>None\<close> for the status and
  \<open>Finish\<close> raises TypeError on \<open>None["opresult"]\<close>; the exception is not a domain API
  error (\<open>Finish\<close> raises none, on any input).
\<close>

theorem Finish_status_none_TypeError:
  assumes "call fn a s = (Inr v, s1)" and "py_int v = Inr i"
    and "invoke client ''WaitForJobCompletion'' ([v], []) s1 = (r, s2)"
    and "underlying client ''GetJobStatus'' = None
         \<or> (\<exists>g m w. underlying client ''GetJobStatus'' = Some g
                \<and> g ([v], []) (world s2) = (ApiError m, w))"
  shows "fst (Finish client fn a s) = Inl TypeError
       \<and> (\<forall>fn' a' s' msg. fst (Finish client fn' a' s') \<noteq> Inl (GanetiApiError msg))"
proof -
  obtain success where w: "invoke client ''WaitForJobCompletion'' ([v], []) s1 = (Inr success, s2)"
    using invoke_public[OF wait_public, of client "([v], [])" s1] assms(3) by auto
  have "\<exists>s3. invoke client ''GetJobStatus'' ([v], []) s2 = (Inr PNone, s3)"
    using assms(4)
    by (auto simp: invoke_def bnd_def getattr_public[OF status_public] MockMethod_call_def
        decoratedFn_def)
  then obtain s3 where g: "invoke client ''GetJobStatus'' ([v], []) s2 = (Inr PNone, s3)" by blast
  have "fst (Finish client fn a s) = Inl TypeError"
    unfolding Finish_job[OF assms(1,2)]
    by (simp add: bnd_def w g lift_def)
  then show ?thesis using Finish_never_api_error by blast
qed

theorem Finish_status_none_TypeError_witness:
  "call create42 ([], []) s0 = (Inr (PStr ''42''),
     s0\<lparr>out := [UsingMethod ''CreateInstance''], trace := [Forwarded ''CreateInstance'' ([], [])]\<rparr>)
   \<and> py_int (PStr ''42'') = Inr 42
   \<and> underlying double_no_status ''GetJobStatus'' = None
   \<and> fst (Finish double_no_status create42 ([], []) s0) = Inl TypeError
   \<and> underlying double_status_error ''GetJobStatus'' = Some (failing ''no such job'')
   \<and> failing ''no such job'' ([PStr ''42''], []) () = (ApiError ''no such job'', ())
   \<and> fst (Finish double_status_error create42 ([], []) s0) = Inl TypeError"
proof -
  have n: "underlying double_no_status ''GetJobStatus'' = None"
    by (simp add: double_no_status_def)
  have e1: "underlying double_status_error ''GetJobStatus'' = Some (failing ''no such job'')"
    by (simp add: double_status_error_def)
  have e2: "failing ''no such job'' ([PStr ''42''], []) () = (ApiError ''no such job'', ())"
    by (simp add: failing_def)
  have d1: "underlying double_no_status ''GetJobStatus'' = None
         \<or> (\<exists>g m w. underlying double_no_status ''GetJobStatus'' = Some g
                \<and> g ([PStr ''42''], []) (world (s0\<lparr>out := [UsingMethod ''CreateInstance'', UsingMethod ''WaitForJobCompletion''],
         trace := [Forwarded ''CreateInstance'' ([], []),
                   Forwarded ''WaitForJobCompletion'' ([PStr ''42''], [])]\<rparr>)) = (ApiError m, w))"
    using n by simp
  have d2: "underlying double_status_error ''GetJobStatus'' = None
         \<or> (\<exists>g m w. underlying double_status_error ''GetJobStatus'' = Some g
                \<and> g ([PStr ''42''], []) (world (s0\<lparr>out := [UsingMethod ''CreateInstance'', UsingMethod ''WaitForJobCompletion''],
         trace := [Forwarded ''CreateInstance'' ([], []),
                   Forwarded ''WaitForJobCompletion'' ([PStr ''42''], [])]\<rparr>)) = (ApiError m, w))"
    using e1 e2 by (simp add: s0_def)
  show ?thesis
    using Finish_status_none_TypeError[OF c42 py_int_42 no_status_wait_after_create d1, THEN conjunct1]
      Finish_status_none_TypeError[OF c42 py_int_42 status_error_wait_after_create d2, THEN conjunct1]
      c42 py_int_42 n e1 e2
    by simp
qed

section \<open>The proxy: claims C4 and C5\<close>

text \<open>
  C4. For every operation name not starting with an underscore that the wrapped client does
  not expose, attribute lookup on the proxy prints the "missing method" line and yields
  \<open>MockMethod\<close>; called with any positional and keyword arguments, in any state, the mock
  returns \<open>None\<close> and raises nothing, and it leaves the cluster, the output and the error
  stream as they are (the call history, which is bookkeeping, notes the call).
\<close>

theorem missing_operation_mock:
  assumes "\<not> startswith attr ''_''" and "underlying client attr = None"
  shows "getattr client attr s = (Inr MockMethod, s\<lparr>out := out s @ [MissingMethod attr]\<rparr>)
       \<and> call MockMethod a s' = (Inr PNone, s'\<lparr>trace := trace s' @ [Mocked a]\<rparr>)
       \<and> invoke client attr a s =
           (Inr PNone, s\<lparr>out := out s @ [MissingMethod attr], trace := trace s @ [Mocked a]\<rparr>)"
  using assms by (simp add: invoke_def bnd_def getattr_public MockMethod_call_def)

theorem missing_operation_mock_witness:
  "\<not> startswith ''GetNetworks'' ''_'' \<and> underlying double_created ''GetNetworks'' = None
   \<and> getattr double_created ''GetNetworks'' s0 = (Inr MockMethod, s0\<lparr>out := [MissingMethod ''GetNetworks'']\<rparr>)
   \<and> call MockMethod ([], [(''bulk'', PBool True)]) s0
        = (Inr PNone, s0\<lparr>trace := [Mocked ([], [(''bulk'', PBool True)])]\<rparr>)
   \<and> invoke double_created ''GetNetworks'' ([], [(''bulk'', PBool True)]) s0
        = (Inr PNone, s0\<lparr>out := [MissingMethod ''GetNetworks''],
                         trace := [Mocked ([], [(''bulk'', PBool True)])]\<rparr>)"
proof -
  have h1: "\<not> startswith ''GetNetworks'' ''_''" by (simp add: startswith_def)
  have h2: "underlying double_created ''GetNetworks'' = None" by (simp add: double_created_def)
  show ?thesis
    using missing_operation_mock[OF h1 h2, of s0 "([], [(''bulk'', PBool True)])" s0] h1 h2
    by (simp add: s0_def)
qed

text \<open>
  C5. For every operation the wrapped client does expose, the proxy yields the invoker
  made by \<open>InvokerCreator\<close>; a forwarded call that raises a domain API error is caught: the
  invoker prints the "using method" line, then the error line with the operation name and
  the detail, and returns \<open>None\<close>. The exception does not propagate.
\<close>

theorem api_error_absorbed:
  assumes "\<not> startswith attr ''_''" and "underlying client attr = Some fn"
    and "fn a (world s) = (ApiError m, w)"
  shows "getattr client attr s' = (Inr (InvokerCreator fn attr), s')
       \<and> call (InvokerCreator fn attr) a s =
           (Inr PNone, s\<lparr>world := w, out := out s @ [UsingMethod attr, RapiError attr m],
                         trace := trace s @ [Forwarded attr a]\<rparr>)"
  using assms by (simp add: getattr_public InvokerCreator_def decoratedFn_def)

theorem api_error_absorbed_witness:
  "\<not> startswith ''GetJobStatus'' ''_''
   \<and> underlying double_status_error ''GetJobStatus'' = Some (failing ''no such job'')
   \<and> failing ''no such job'' ([PInt 42], []) (world s0) = (ApiError ''no such job'', ())
   \<and> getattr double_status_error ''GetJobStatus'' s0
        = (Inr (InvokerCreator (failing ''no such job'') ''GetJobStatus''), s0)
   \<and> call (InvokerCreator (failing ''no such job'') ''GetJobStatus'') ([PInt 42], []) s0
        = (Inr PNone, s0\<lparr>out := [UsingMethod ''GetJobStatus'', RapiError ''GetJobStatus'' ''no such job''],
                         trace := [Forwarded ''GetJobStatus'' ([PInt 42], [])]\<rparr>)"
proof -
  have h1: "\<not> startswith ''GetJobStatus'' ''_''" by (simp add: startswith_def)
  have h2: "underlying double_status_error ''GetJobStatus'' = Some (failing ''no such job'')"
    by (simp add: double_status_error_def)
  have h3: "failing ''no such job'' ([PInt 42], []) (world s0) = (ApiError ''no such job'', ())"
    by (simp add: failing_def)
  show ?thesis
    using api_error_absorbed[OF h1 h2 h3, of s0] h1 h2 h3 by (simp add: s0_def)
qed

section \<open>The tagging scenario: claim C3\<close>

text \<open>
  C3, as the claim states it: in one full run of \<open>TestTags\<close> the get operation is invoked
  exactly five times, the add operation exactly twice and the delete operation exactly
  twice. On a client whose tag operations all work, a full run invokes the get operation
  four times and the delete operation three times.
\<close>

theorem TestTags_counts_counterexample:
  "fst (TestTags double_tags get_tags0 add_tags0 delete_tags0 [] s0) = Inr ()
   \<and> length (calls_to ''GetClusterTags''
        (trace (snd (TestTags double_tags get_tags0 add_tags0 delete_tags0 [] s0)))) = 4
   \<and> length (calls_to ''DeleteClusterTags''
        (trace (snd (TestTags double_tags get_tags0 add_tags0 delete_tags0 [] s0)))) = 3"
  by (simp add: tags_run calls_to_def)

text \<open>
  C3, amended: in one full run of \<open>TestTags\<close> (one that no exception ends) with three
  operations of the client under different names, the get operation is invoked exactly four
  times, with the target's arguments only; the add operation exactly twice, with all three
  tags, first as a dry run and then for real; the delete operation exactly three times, on
  the first tag as a dry run, on the first tag for real, and on the other two tags for real.
\<close>

theorem TestTags_calls:
  assumes "fst (TestTags client (DecoratedFn g gn) (DecoratedFn ad an) (DecoratedFn d dn) args s) = Inr u"
    and "distinct [gn, an, dn, ''WaitForJobCompletion'', ''GetJobStatus'']"
  shows "calls_to gn (trace (snd (TestTags client (DecoratedFn g gn) (DecoratedFn ad an) (DecoratedFn d dn) args s)))
           = calls_to gn (trace s) @
             [Forwarded gn (args, []), Forwarded gn (args, []),
              Forwarded gn (args, []), Forwarded gn (args, [])]
       \<and> calls_to an (trace (snd (TestTags client (DecoratedFn g gn) (DecoratedFn ad an) (DecoratedFn d dn) args s)))
           = calls_to an (trace s) @
             [Forwarded an (args, [(''tags'', PList [PStr ''tag1'', PStr ''tag2'', PStr ''tag3'']),
                                   (''dry_run'', PBool True)]),
              Forwarded an (args, [(''tags'', PList [PStr ''tag1'', PStr ''tag2'', PStr ''tag3''])])]
       \<and> calls_to dn (trace (snd (TestTags client (DecoratedFn g gn) (DecoratedFn ad an) (DecoratedFn d dn) args s)))
           = calls_to dn (trace s) @
             [Forwarded dn (args, [(''tags'', PList [PStr ''tag1'']), (''dry_run'', PBool True)]),
              Forwarded dn (args, [(''tags'', PList [PStr ''tag1''])]),
              Forwarded dn (args, [(''tags'', PList [PStr ''tag2'', PStr ''tag3''])])]"
proof -
  note A = assms(1)[unfolded TestTags_def Let_def]
  note R = adds_call_same adds_call_other adds_Finish_same adds_Finish_other
  from assms(2) have ne:
    "gn \<noteq> an" "an \<noteq> gn" "gn \<noteq> dn" "dn \<noteq> gn" "an \<noteq> dn" "dn \<noteq> an"
    "gn \<noteq> ''WaitForJobCompletion''" "gn \<noteq> ''GetJobStatus''"
    "an \<noteq> ''WaitForJobCompletion''" "an \<noteq> ''GetJobStatus''"
    "dn \<noteq> ''WaitForJobCompletion''" "dn \<noteq> ''GetJobStatus''"
    by auto
  have G: "calls_to gn (trace (snd (TestTags client (DecoratedFn g gn) (DecoratedFn ad an) (DecoratedFn d dn) args s)))
           = calls_to gn (trace s) @ concat
             [[Forwarded gn (args, [])], [], [], [Forwarded gn (args, [])], [], [],
              [Forwarded gn (args, [])], [], [Forwarded gn (args, [])]]"
    unfolding TestTags_def Let_def
    by (rule sequence_adds[OF A]) (simp add: R ne del: call.simps)
  have Ad: "calls_to an (trace (snd (TestTags client (DecoratedFn g gn) (DecoratedFn ad an) (DecoratedFn d dn) args s)))
           = calls_to an (trace s) @ concat
             [[], [Forwarded an (args, [(''tags'', PList [PStr ''tag1'', PStr ''tag2'', PStr ''tag3'']),
                                       (''dry_run'', PBool True)])],
              [Forwarded an (args, [(''tags'', PList [PStr ''tag1'', PStr ''tag2'', PStr ''tag3''])])],
              [], [], [], [], [], []]"
    unfolding TestTags_def Let_def
    by (rule sequence_adds[OF A]) (simp add: R ne del: call.simps)
  have D: "calls_to dn (trace (snd (TestTags client (DecoratedFn g gn) (DecoratedFn ad an) (DecoratedFn d dn) args s)))
           = calls_to dn (trace s) @ concat
             [[], [], [], [],
              [Forwarded dn (args, [(''tags'', PList (take 1 [PStr ''tag1'', PStr ''tag2'', PStr ''tag3''])),
                                    (''dry_run'', PBool True)])],
              [Forwarded dn (args, [(''tags'', PList (take 1 [PStr ''tag1'', PStr ''tag2'', PStr ''tag3'']))])],
              [],
              [Forwarded dn (args, [(''tags'', PList (drop 1 [PStr ''tag1'', PStr ''tag2'', PStr ''tag3'']))])],
              []]"
    unfolding TestTags_def Let_def
    by (rule sequence_adds[OF A]) (simp add: R ne del: call.simps)
  show ?thesis using G Ad D by simp
qed

theorem TestTags_calls_witness:
  "fst (TestTags double_tags (DecoratedFn (returning (PList [])) ''GetClusterTags'')
          (DecoratedFn (returning (PStr ''1'')) ''AddClusterTags'')
          (DecoratedFn (returning (PInt 2)) ''DeleteClusterTags'') [] s0) = Inr ()
   \<and> distinct [''GetClusterTags'', ''AddClusterTags'', ''DeleteClusterTags'',
               ''WaitForJobCompletion'', ''GetJobStatus'']
   \<and> calls_to ''GetClusterTags'' (trace (snd (TestTags double_tags get_tags0 add_tags0 delete_tags0 [] s0)))
       = [Forwarded ''GetClusterTags'' ([], []), Forwarded ''GetClusterTags'' ([], []),
          Forwarded ''GetClusterTags'' ([], []), Forwarded ''GetClusterTags'' ([], [])]
   \<and> calls_to ''AddClusterTags'' (trace (snd (TestTags double_tags get_tags0 add_tags0 delete_tags0 [] s0)))
       = [Forwarded ''AddClusterTags'' ([], [(''tags'', PList [PStr ''tag1'', PStr ''tag2'', PStr ''tag3'']),
                                             (''dry_run'', PBool True)]),
          Forwarded ''AddClusterTags'' ([], [(''tags'', PList [PStr ''tag1'', PStr ''tag2'', PStr ''tag3''])])]
   \<and> calls_to ''DeleteClusterTags'' (trace (snd (TestTags double_tags get_tags0 add_tags0 delete_tags0 [] s0)))
       = [Forwarded ''DeleteClusterTags'' ([], [(''tags'', PList [PStr ''tag1'']), (''dry_run'', PBool True)]),
          Forwarded ''DeleteClusterTags'' ([], [(''tags'', PList [PStr ''tag1''])]),
          Forwarded ''DeleteClusterTags'' ([], [(''tags'', PList [PStr ''tag2'', PStr ''tag3''])])]"
proof -
  have h1: "fst (TestTags double_tags (DecoratedFn (returning (PList [])) ''GetClusterTags'')
          (DecoratedFn (returning (PStr ''1'')) ''AddClusterTags'')
          (DecoratedFn (returning (PInt 2)) ''DeleteClusterTags'') [] s0) = Inr ()"
    using tags_run(1) by (simp add: get_tags0_def add_tags0_def delete_tags0_def)
  have h2: "distinct [''GetClusterTags'', ''AddClusterTags'', ''DeleteClusterTags'',
               ''WaitForJobCompletion'', ''GetJobStatus'']" by simp
  show ?thesis
    using TestTags_calls[OF h1 h2] h1 h2
    by (simp add: get_tags0_def add_tags0_def delete_tags0_def s0_def calls_to_def)
qed

section \<open>Removing all instances: claim C8\<close>

lemma foreach_delete:
  assumes D: "underlying client ''DeleteInstance'' = Some del"
    and F1: "\<And>i s. \<exists>v. fst (Finish client (DecoratedFn del ''DeleteInstance'') ([PStr i], []) s) = Inr v"
    and F2: "\<And>i s. insts (world (snd (Finish client (DecoratedFn del ''DeleteInstance'') ([PStr i], []) s)))
                 = removeAll i (insts (world s))"
  shows "\<exists>s'. foreach (map PStr xs) (\<lambda>inst. Finish_of client ''DeleteInstance'' ([inst], [])) s = (Inr (), s')
          \<and> insts (world s') = fold removeAll xs (insts (world s))
          \<and> calls_to ''DeleteInstance'' (trace s') =
              calls_to ''DeleteInstance'' (trace s) @ map (\<lambda>i. Forwarded ''DeleteInstance'' ([PStr i], [])) xs
          \<and> calls_to ''GetInstances'' (trace s') = calls_to ''GetInstances'' (trace s)"
proof (induction xs arbitrary: s)
  case Nil
  then show ?case by (simp add: ret_def)
next
  case (Cons x xs)
  let ?f = "Finish client (DecoratedFn del ''DeleteInstance'') ([PStr x], []) s"
  obtain v where v: "fst ?f = Inr v" using F1 by blast
  obtain s1 where s1: "?f = (Inr v, s1)" using v by (cases ?f) auto
  have body: "Finish_of client ''DeleteInstance'' ([PStr x], []) s = (Inr v, s1)"
    using s1 D by (simp add: Finish_of_def bnd_def getattr_public[OF delete_public] del: call.simps)
  have w1: "insts (world s1) = removeAll x (insts (world s))" using F2[of x s] s1 by simp
  have t1: "calls_to ''DeleteInstance'' (trace s1) =
              calls_to ''DeleteInstance'' (trace s) @ [Forwarded ''DeleteInstance'' ([PStr x], [])]"
    using Finish_calls[of "''DeleteInstance''" client "DecoratedFn del ''DeleteInstance''" "([PStr x], [])" s] s1
    by (simp add: call_decorated_trace calls_to_single del: call.simps)
  have g1: "calls_to ''GetInstances'' (trace s1) = calls_to ''GetInstances'' (trace s)"
    using Finish_calls[of "''GetInstances''" client "DecoratedFn del ''DeleteInstance''" "([PStr x], [])" s] s1
    by (simp add: call_decorated_trace calls_to_single del: call.simps)
  from Cons[of s1] obtain s' where
    r: "foreach (map PStr xs) (\<lambda>inst. Finish_of client ''DeleteInstance'' ([inst], [])) s1 = (Inr (), s')"
    and w: "insts (world s') = fold removeAll xs (insts (world s1))"
    and t: "calls_to ''DeleteInstance'' (trace s') =
              calls_to ''DeleteInstance'' (trace s1) @ map (\<lambda>i. Forwarded ''DeleteInstance'' ([PStr i], [])) xs"
    and g: "calls_to ''GetInstances'' (trace s') = calls_to ''GetInstances'' (trace s1)"
    by blast
  show ?case
    using body r w t g w1 t1 g1 by (simp add: bnd_def)
qed

text \<open>
  C8. \<open>insts\<close> reads the list of instance names off the cluster. On a cluster that nothing
  else writes to (\<open>GetInstances\<close> returns the current instances and changes nothing) and on
  which each deletion succeeds (\<open>Finish\<close> on \<open>DeleteInstance\<close> returns and the instance is
  gone, the others untouched), \<open>RemoveAllInstances\<close> enumerates the instances, deletes each
  one through \<open>Finish\<close>, in order, enumerates again, and the assertion holds: the function
  returns and the cluster has no instance.
\<close>

theorem RemoveAllInstances_empties:
  assumes G: "underlying client ''GetInstances'' = Some gi"
    and Gr: "\<And>a w. gi a w = (Returned (PList (map PStr (insts w))), w)"
    and D: "underlying client ''DeleteInstance'' = Some del"
    and F1: "\<And>i s. \<exists>v. fst (Finish client (DecoratedFn del ''DeleteInstance'') ([PStr i], []) s) = Inr v"
    and F2: "\<And>i s. insts (world (snd (Finish client (DecoratedFn del ''DeleteInstance'') ([PStr i], []) s)))
                 = removeAll i (insts (world s))"
  shows "fst (RemoveAllInstances client s) = Inr ()
       \<and> insts (world (snd (RemoveAllInstances client s))) = []
       \<and> calls_to ''DeleteInstance'' (trace (snd (RemoveAllInstances client s))) =
           calls_to ''DeleteInstance'' (trace s)
           @ map (\<lambda>i. Forwarded ''DeleteInstance'' ([PStr i], [])) (insts (world s))
       \<and> calls_to ''GetInstances'' (trace (snd (RemoveAllInstances client s))) =
           calls_to ''GetInstances'' (trace s)
           @ [Forwarded ''GetInstances'' ([], []), Forwarded ''GetInstances'' ([], [])]"
proof -
  have enum: "\<And>t. invoke client ''GetInstances'' ([], []) t =
      (Inr (PList (map PStr (insts (world t)))),
       t\<lparr>out := out t @ [UsingMethod ''GetInstances''],
         trace := trace t @ [Forwarded ''GetInstances'' ([], [])]\<rparr>)"
    using G Gr by (simp add: invoke_def bnd_def getattr_public[OF instances_public] decoratedFn_def)
  let ?s1 = "s\<lparr>out := out s @ [UsingMethod ''GetInstances''],
               trace := trace s @ [Forwarded ''GetInstances'' ([], [])]\<rparr>"
  from foreach_delete[OF D F1 F2, of "insts (world s)" ?s1] obtain s2 where
    r: "foreach (map PStr (insts (world s))) (\<lambda>inst. Finish_of client ''DeleteInstance'' ([inst], [])) ?s1 = (Inr (), s2)"
    and w: "insts (world s2) = fold removeAll (insts (world s)) (insts (world ?s1))"
    and t: "calls_to ''DeleteInstance'' (trace s2) =
              calls_to ''DeleteInstance'' (trace ?s1) @ map (\<lambda>i. Forwarded ''DeleteInstance'' ([PStr i], [])) (insts (world s))"
    and g: "calls_to ''GetInstances'' (trace s2) = calls_to ''GetInstances'' (trace ?s1)"
    by blast
  have e: "insts (world s2) = []" using w by (simp add: fold_removeAll)
  have run: "RemoveAllInstances client s =
      (Inr (), s2\<lparr>out := out s2 @ [UsingMethod ''GetInstances''],
                  trace := trace s2 @ [Forwarded ''GetInstances'' ([], [])]\<rparr>)"
    by (simp add: RemoveAllInstances_def bnd_def enum lift_def r e ret_def)
  show ?thesis
    using run e t g by (simp add: calls_to_single)
qed

theorem RemoveAllInstances_empties_witness:
  "underlying cluster_double ''GetInstances'' = Some (\<lambda>a w. (Returned (PList (map PStr w)), w))
   \<and> underlying cluster_double ''DeleteInstance'' = Some delete_instance_double
   \<and> fst (RemoveAllInstances cluster_double cluster0) = Inr ()
   \<and> world (snd (RemoveAllInstances cluster_double cluster0)) = []
   \<and> calls_to ''DeleteInstance'' (trace (snd (RemoveAllInstances cluster_double cluster0))) =
       [Forwarded ''DeleteInstance'' ([PStr ''inst1''], []),
        Forwarded ''DeleteInstance'' ([PStr ''inst2''], [])]
   \<and> calls_to ''GetInstances'' (trace (snd (RemoveAllInstances cluster_double cluster0))) =
       [Forwarded ''GetInstances'' ([], []), Forwarded ''GetInstances'' ([], [])]"
proof -
  have G: "underlying cluster_double ''GetInstances'' = Some (\<lambda>a w. (Returned (PList (map PStr w)), w))"
    by (simp add: cluster_double_def)
  have Gr: "\<And>a w. (\<lambda>a w. (Returned (PList (map PStr w)), w)) a w
              = (Returned (PList (map PStr ((\<lambda>w. w) w))), w)"
    by simp
  have D: "underlying cluster_double ''DeleteInstance'' = Some delete_instance_double"
    by (simp add: cluster_double_def)
  have F1: "\<And>i s. \<exists>v. fst (Finish cluster_double (DecoratedFn delete_instance_double ''DeleteInstance'') ([PStr i], []) s) = Inr v"
    by (simp add: cluster_delete_run del: call.simps)
  have F2: "\<And>i s. (\<lambda>w. w) (world (snd (Finish cluster_double (DecoratedFn delete_instance_double ''DeleteInstance'') ([PStr i], []) s)))
                 = removeAll i ((\<lambda>w. w) (world s))"
    by (simp add: cluster_delete_run del: call.simps)
  show ?thesis
    using RemoveAllInstances_empties[of cluster_double _ "\<lambda>w. w" delete_instance_double cluster0, OF G Gr D F1 F2] G D
    by (simp add: cluster0_def calls_to_def)
qed

section \<open>The entry point: claim C9\<close>

text \<open>
  C9. When \<open>Main\<close> is invoked with fewer than two entries in \<open>sys.argv\<close>, it writes the
  usage message to the error stream and goes on: \<open>sys.argv[1]\<close> raises IndexError, which
  ends the run before the configuration is loaded. The run does not end cleanly.
\<close>

theorem Main_without_argument:
  assumes "length argv < 2"
  shows "Main q argv s = (Inl IndexError, s\<lparr>err := err s @ [usage_text]\<rparr>)"
  using assms by (simp add: Main_def bnd_def Usage_def lift_def seq_index_def)

theorem Main_without_argument_witness:
  "length [''rapi-workload.py''] < 2
   \<and> Main qa_stub [''rapi-workload.py''] s0 = (Inl IndexError, s0\<lparr>err := [usage_text]\<rparr>)"
proof -
  have h: "length [''rapi-workload.py''] < 2" by simp
  show ?thesis using Main_without_argument[OF h, of qa_stub s0] by (simp add: s0_def)
qed

end
